theory Spec2Isabelle
  imports Main
begin

section \<open>Data model\<close>

text \<open>
  The middleware mirrors three entities of the remote service into the tables
  \<^verbatim>\<open>products\<close>, \<^verbatim>\<open>picklists\<close> and \<^verbatim>\<open>warehouses\<close>, and
  keeps one row per entity in \<^verbatim>\<open>sync_status\<close>. The three procedures
  \<^verbatim>\<open>syncProducts\<close>, \<^verbatim>\<open>syncPicklists\<close> and \<^verbatim>\<open>syncWarehouses\<close>
  have the same text up to the entity's name and its column mapping, so the model has
  one procedure \<open>syncEntity\<close> indexed by the entity, and the three procedures are its
  instances.
\<close>

datatype entity = Products | Picklists | Warehouses

fun entity_name :: "entity \<Rightarrow> string" where
  "entity_name Products = ''products''"
| "entity_name Picklists = ''picklists''"
| "entity_name Warehouses = ''warehouses''"

text \<open>
  The objects of the remote collections, with the fields the procedures read. A field
  the code reads through \<^verbatim>\<open>x || default\<close> may be absent (\<open>None\<close>). Prices are
  kept in hundredths (the column is \<^verbatim>\<open>DECIMAL(10, 2)\<close>), dates as milliseconds.
\<close>

datatype product = Product (idproduct: int) (product_name: string) (sku: "string option")
  (barcode: "string option") (price: "int option") (stock: "int option")

datatype picklist = Picklist (idpicklist: int) (picklist_status: "string option") (created: nat)
  (completed: "nat option") (warehouse_id: "int option")

datatype warehouse = Warehouse (idwarehouse: int) (warehouse_name: string)

text \<open>
  The rows of the three entity tables, by their \<^verbatim>\<open>INSERT\<close> statements: the columns
  in the statement's order, without \<^verbatim>\<open>sync_date\<close>, which the table stores beside the
  row. The first column is \<^verbatim>\<open>id INT PRIMARY KEY\<close>.
\<close>

datatype row =
    ProductRow int int string string string int int
  | PicklistRow int int string nat "nat option" int
  | WarehouseRow int int string

fun row_id :: "row \<Rightarrow> int" where
  "row_id (ProductRow i _ _ _ _ _ _) = i"
| "row_id (PicklistRow i _ _ _ _ _) = i"
| "row_id (WarehouseRow i _ _) = i"

text \<open>JavaScript's \<^verbatim>\<open>x || d\<close> on a field that may be absent.\<close>

fun or_default :: "'a option \<Rightarrow> 'a \<Rightarrow> 'a" where
  "or_default None d = d"
| "or_default (Some v) d = v"

definition productRow :: "product \<Rightarrow> row" where
  "productRow p = ProductRow (idproduct p) (idproduct p) (product_name p)
     (or_default (sku p) '''') (or_default (barcode p) '''')
     (or_default (price p) 0) (or_default (stock p) 0)"

definition picklistRow :: "picklist \<Rightarrow> row" where
  "picklistRow p = PicklistRow (idpicklist p) (idpicklist p)
     (or_default (picklist_status p) '''') (created p) (completed p)
     (or_default (warehouse_id p) 0)"

definition warehouseRow :: "warehouse \<Rightarrow> row" where
  "warehouseRow w = WarehouseRow (idwarehouse w) (idwarehouse w) (warehouse_name w)"

text \<open>
  A row of \<^verbatim>\<open>sync_status\<close>; its key, the column \<^verbatim>\<open>entity\<close>, is the key of the
  map that models the table.
\<close>

record status_row =
  last_sync :: nat
  record_count :: nat
  status :: string

text \<open>
  What an entity procedure returns: \<^verbatim>\<open>{success: true, count: n}\<close> or
  \<^verbatim>\<open>{success: false, error: message}\<close>.
\<close>

datatype sync_result = Success nat | Failure string

fun is_success :: "sync_result \<Rightarrow> bool" where
  "is_success (Success _) = True"
| "is_success (Failure _) = False"

text \<open>The combined result that \<^verbatim>\<open>syncAll\<close> stores in \<^verbatim>\<open>lastSyncResults\<close>.\<close>

record combined =
  timestamp :: nat
  products :: sync_result
  picklists :: sync_result
  warehouses :: sync_result
  success :: bool

text \<open>
  What \<^verbatim>\<open>syncAll\<close> returns: the object \<^verbatim>\<open>{success: false, error: message}\<close>
  of a refused invocation, or the combined result.
\<close>

datatype all_result = ErrorResult string | Combined combined

text \<open>The lines written with \<^verbatim>\<open>console.error\<close> by the procedures modelled here.\<close>

datatype log_line =
    InsertError entity int string
  | SyncError entity string
  | StatusUpdateError string

text \<open>
  What the remote client answers to one \<^verbatim>\<open>getProducts\<close>, \<^verbatim>\<open>getPicklists\<close>
  or \<^verbatim>\<open>getWarehouses\<close>: the promise is rejected with an error, or fulfilled with the
  decoded collection, an array of objects (a body of another shape is outside the
  model).
\<close>

datatype 'a response = Rejected string | Body "'a list"

record picqer =
  getProducts :: "product response"
  getPicklists :: "picklist response"
  getWarehouses :: "warehouse response"

text \<open>
  The state: the four tables, the globals \<^verbatim>\<open>syncInProgress\<close> and
  \<^verbatim>\<open>lastSyncResults\<close> (\<open>None\<close> is the initial \<^verbatim>\<open>{}\<close>), the error console, the
  requests handed to \<^verbatim>\<open>PicqerClient.request\<close> as pairs of method and endpoint, and
  the environment: the clock that \<^verbatim>\<open>GETDATE()\<close> and \<^verbatim>\<open>new Date()\<close> read (one
  reading for the whole of an operation; the environment sets it between operations),
  and \<open>faults\<close>, the script of the database's failures. Every statement sent to the
  database takes the head of the script: \<open>Some m\<close> makes the statement fail with the
  message \<open>m\<close> and leave the tables as they are, \<open>None\<close> (or an empty script) lets the
  database execute it.
\<close>

record state =
  tables :: "entity \<Rightarrow> (row \<times> nat) list"
  sync_status :: "string \<rightharpoonup> status_row"
  syncInProgress :: bool
  lastSyncResults :: "combined option"
  console :: "log_line list"
  requested :: "(string \<times> string) list"
  faults :: "string option list"
  now :: nat

definition initial_state :: state where
  "initial_state = \<lparr> tables = (\<lambda>_. []), sync_status = Map.empty, syncInProgress = False,
     lastSyncResults = None, console = [], requested = [], faults = [], now = 0 \<rparr>"

section \<open>The database and the remote client\<close>

definition next_fault :: "state \<Rightarrow> string option \<times> state" where
  "next_fault st = (case faults st of [] \<Rightarrow> (None, st) | f # fs \<Rightarrow> (f, st\<lparr>faults := fs\<rparr>))"

definition logError :: "log_line \<Rightarrow> state \<Rightarrow> state" where
  "logError l st = st\<lparr>console := console st @ [l]\<rparr>"

text \<open>
  \<^verbatim>\<open>PicqerClient.request\<close> as the sync procedures see it: the request is handed to
  the client, and what the remote service answers is an argument of the procedures.
  The queue of the client, with its timer, is the machine of a section of its own.
\<close>

definition request :: "string \<Rightarrow> string \<Rightarrow> state \<Rightarrow> state" where
  "request method endpoint st = st\<lparr>requested := requested st @ [(method, endpoint)]\<rparr>"

text \<open>\<^verbatim>\<open>DELETE FROM <table>\<close>: \<open>Some m\<close> is the error the statement raised.\<close>

definition deleteAll :: "entity \<Rightarrow> state \<Rightarrow> string option \<times> state" where
  "deleteAll e st =
     (case next_fault st of
        (Some m, st1) \<Rightarrow> (Some m, st1)
      | (None, st1) \<Rightarrow> (None, st1\<lparr>tables := (tables st1)(e := [])\<rparr>))"

definition pk_violation :: string where
  "pk_violation = ''Violation of PRIMARY KEY constraint''"

text \<open>
  One \<^verbatim>\<open>INSERT INTO <table>\<close>. Beside the failures of the script, the statement
  fails when the table already holds a row with the same primary key.
\<close>

definition insertRow :: "entity \<Rightarrow> row \<Rightarrow> state \<Rightarrow> string option \<times> state" where
  "insertRow e r st =
     (case next_fault st of
        (Some m, st1) \<Rightarrow> (Some m, st1)
      | (None, st1) \<Rightarrow>
          if row_id r \<in> set (map (row_id \<circ> fst) (tables st1 e)) then (Some pk_violation, st1)
          else (None, st1\<lparr>tables := (tables st1)(e := tables st1 e @ [(r, now st1)])\<rparr>))"

text \<open>
  The column \<^verbatim>\<open>status VARCHAR(50)\<close> of \<^verbatim>\<open>sync_status\<close>, as
  \<^verbatim>\<open>createTablesIfNotExist\<close> declares it. An \<^verbatim>\<open>INSERT\<close> or \<^verbatim>\<open>UPDATE\<close>
  that would store a longer string is refused by the server with the truncation error
  and changes nothing; this is the server's behaviour under \<^verbatim>\<open>ANSI_WARNINGS ON\<close>,
  the session setting of the driver's default configuration, which the code does not
  change.
\<close>

definition status_width :: nat where
  "status_width = 50"

definition truncation_error :: string where
  "truncation_error = ''String or binary data would be truncated.''"

text \<open>
  The upsert after the loop:
  \<^verbatim>\<open>IF EXISTS (...) UPDATE sync_status SET last_sync = GETDATE(), record_count = @count,
  status = 'success' WHERE entity = @entity ELSE INSERT ... VALUES (@entity, GETDATE(),
  @count, 'success')\<close>.
\<close>

definition upsertSuccessStatus :: "entity \<Rightarrow> nat \<Rightarrow> state \<Rightarrow> string option \<times> state" where
  "upsertSuccessStatus e n st =
     (case next_fault st of
        (Some m, st1) \<Rightarrow> (Some m, st1)
      | (None, st1) \<Rightarrow>
          if status_width < length ''success'' then (Some truncation_error, st1)
          else (None, st1\<lparr>sync_status := (sync_status st1)(entity_name e \<mapsto>
                 (case sync_status st1 (entity_name e) of
                    Some r \<Rightarrow> r\<lparr>last_sync := now st1, record_count := n, status := ''success''\<rparr>
                  | None \<Rightarrow> \<lparr>last_sync = now st1, record_count = n, status = ''success''\<rparr>))\<rparr>))"

text \<open>
  The upsert of the error handler, with \<open>err\<close> the parameter \<^verbatim>\<open>@error\<close>:
  \<^verbatim>\<open>IF EXISTS (...) UPDATE sync_status SET last_sync = GETDATE(), status = 'error: ' +
  @error WHERE entity = @entity ELSE INSERT ... VALUES (@entity, GETDATE(), 0, 'error: ' +
  @error)\<close>.
\<close>

definition upsertErrorStatus :: "entity \<Rightarrow> string \<Rightarrow> state \<Rightarrow> string option \<times> state" where
  "upsertErrorStatus e err st =
     (case next_fault st of
        (Some m, st1) \<Rightarrow> (Some m, st1)
      | (None, st1) \<Rightarrow>
          if status_width < length (''error: '' @ err) then (Some truncation_error, st1)
          else (None, st1\<lparr>sync_status := (sync_status st1)(entity_name e \<mapsto>
                 (case sync_status st1 (entity_name e) of
                    Some r \<Rightarrow> r\<lparr>last_sync := now st1, status := ''error: '' @ err\<rparr>
                  | None \<Rightarrow> \<lparr>last_sync = now st1, record_count = 0,
                             status = ''error: '' @ err\<rparr>))\<rparr>))"

section \<open>The entity sync procedure\<close>

text \<open>
  The loop over the fetched records: a failed insert is logged and the loop goes on;
  \<open>n\<close> is \<^verbatim>\<open>insertedCount\<close>.
\<close>

fun insertRows :: "entity \<Rightarrow> row list \<Rightarrow> nat \<Rightarrow> state \<Rightarrow> nat \<times> state" where
  "insertRows e [] n st = (n, st)"
| "insertRows e (r # rs) n st =
     (case insertRow e r st of
        (Some m, st1) \<Rightarrow> insertRows e rs n (logError (InsertError e (row_id r) m) st1)
      | (None, st1) \<Rightarrow> insertRows e rs (Suc n) st1)"

text \<open>
  The \<^verbatim>\<open>try\<close> block, run from its first statement to its end with nothing else
  executed on the database in between: \<open>Inl (m, st')\<close> is the error thrown, with the
  state at that moment; \<open>Inr (n, st')\<close> is the normal end with
  \<^verbatim>\<open>insertedCount = n\<close>. The code awaits every statement, so another operation may
  run between two of them: the statements one by one are the steps of the next
  section, and a sync whose steps follow each other is this procedure.
\<close>

definition trySync :: "entity \<Rightarrow> row response \<Rightarrow> state \<Rightarrow> (string \<times> state) + (nat \<times> state)" where
  "trySync e resp st =
     (let st0 = request ''get'' (entity_name e) st in
      case resp of
        Rejected m \<Rightarrow> Inl (m, st0)
      | Body rows \<Rightarrow>
          (case deleteAll e st0 of
             (Some m, st1) \<Rightarrow> Inl (m, st1)
           | (None, st1) \<Rightarrow>
               (case insertRows e rows 0 st1 of
                  (n, st2) \<Rightarrow>
                    (case upsertSuccessStatus e n st2 of
                       (Some m, st3) \<Rightarrow> Inl (m, st3)
                     | (None, st3) \<Rightarrow> Inr (n, st3)))))"

text \<open>
  The \<^verbatim>\<open>catch\<close> block: it logs the error, tries the error upsert with the first 255
  characters of the message, logs a failure of that upsert, and returns the failure.
\<close>

definition catchSync :: "entity \<Rightarrow> string \<Rightarrow> state \<Rightarrow> sync_result \<times> state" where
  "catchSync e msg st =
     (case upsertErrorStatus e (take 255 msg) (logError (SyncError e msg) st) of
        (Some m2, st2) \<Rightarrow> (Failure msg, logError (StatusUpdateError m2) st2)
      | (None, st2) \<Rightarrow> (Failure msg, st2))"

definition syncEntity :: "entity \<Rightarrow> row response \<Rightarrow> state \<Rightarrow> sync_result \<times> state" where
  "syncEntity e resp st =
     (case trySync e resp st of
        Inr (n, st') \<Rightarrow> (Success n, st')
      | Inl (msg, st') \<Rightarrow> catchSync e msg st')"

definition syncProducts :: "picqer \<Rightarrow> state \<Rightarrow> sync_result \<times> state" where
  "syncProducts api st = syncEntity Products (map_response productRow (getProducts api)) st"

definition syncPicklists :: "picqer \<Rightarrow> state \<Rightarrow> sync_result \<times> state" where
  "syncPicklists api st = syncEntity Picklists (map_response picklistRow (getPicklists api)) st"

definition syncWarehouses :: "picqer \<Rightarrow> state \<Rightarrow> sync_result \<times> state" where
  "syncWarehouses api st =
     syncEntity Warehouses (map_response warehouseRow (getWarehouses api)) st"

section \<open>The statements of a sync, one by one\<close>








section \<open>The orchestrator\<close>

text \<open>
  \<^verbatim>\<open>syncAll\<close>: refused while the flag is set; otherwise it sets the flag, runs the
  three procedures in the order products, picklists, warehouses, stores the combined
  result and clears the flag. The entity procedures catch every error themselves and
  always return a result, so nothing in the \<^verbatim>\<open>try\<close> block of \<^verbatim>\<open>syncAll\<close> throws
  and its \<^verbatim>\<open>catch\<close> block has no run.
\<close>

definition syncAll :: "picqer \<Rightarrow> state \<Rightarrow> all_result \<times> state" where
  "syncAll api st =
     (if syncInProgress st then (ErrorResult ''Sync already in progress'', st)
      else
        (case syncProducts api (st\<lparr>syncInProgress := True\<rparr>) of
           (productsResult, st1) \<Rightarrow>
             (case syncPicklists api st1 of
                (picklistsResult, st2) \<Rightarrow>
                  (case syncWarehouses api st2 of
                     (warehousesResult, st3) \<Rightarrow>
                       (let res = \<lparr> timestamp = now st3,
                                    products = productsResult,
                                    picklists = picklistsResult,
                                    warehouses = warehousesResult,
                                    success = (is_success productsResult
                                      \<or> is_success picklistsResult
                                      \<or> is_success warehousesResult) \<rparr>
                        in (Combined res,
                            st3\<lparr>lastSyncResults := Some res, syncInProgress := False\<rparr>))))))"

section \<open>The HTTP handlers\<close>

datatype json = JBool bool | JString string | JObject "(string \<times> json) list"

record http_response =
  code :: nat
  body :: json

definition sync_started :: "string \<Rightarrow> http_response" where
  "sync_started entity = \<lparr> code = 200, body = JObject [(''success'', JBool True),
     (''message'', JString (''Sync started for '' @ entity)), (''background'', JBool True)] \<rparr>"

definition unknown_entity :: "string \<Rightarrow> http_response" where
  "unknown_entity entity = \<lparr> code = 400, body = JObject [(''success'', JBool False),
     (''message'', JString (''Unknown entity type: '' @ entity))] \<rparr>"

text \<open>
  \<^verbatim>\<open>POST /api/sync/:entity\<close>. The handler starts the procedure and answers at once;
  the state returned is the one the started procedure leaves when it has run. Calling
  an entity procedure gives a promise and throws nothing, so the handler's answer with
  code 500 has no run.
\<close>

definition postSyncEntity :: "picqer \<Rightarrow> string \<Rightarrow> state \<Rightarrow> http_response \<times> state" where
  "postSyncEntity api entity st =
     (if entity = ''products'' then (sync_started entity, snd (syncProducts api st))
      else if entity = ''picklists'' then (sync_started entity, snd (syncPicklists api st))
      else if entity = ''warehouses'' then (sync_started entity, snd (syncWarehouses api st))
      else (unknown_entity entity, st))"

text \<open>
  \<^verbatim>\<open>GET /api/stats\<close>: one entry for every row of \<^verbatim>\<open>sync_status\<close>, the default
  entry for each of the three entities without a row, and the flag; code 500 with the
  error when the query fails.
\<close>

record stat_entry =
  lastSyncDate :: "nat option"
  totalCount :: nat
  stat_status :: string

datatype stats_response = StatsOk "string \<rightharpoonup> stat_entry" bool | StatsFailed string

definition getStats :: "state \<Rightarrow> stats_response \<times> state" where
  "getStats st =
     (case next_fault st of
        (Some m, st1) \<Rightarrow> (StatsFailed m, st1)
      | (None, st1) \<Rightarrow>
          (StatsOk
             (\<lambda>k. case sync_status st1 k of
                     Some r \<Rightarrow> Some \<lparr> lastSyncDate = Some (last_sync r),
                                       totalCount = record_count r, stat_status = status r \<rparr>
                   | None \<Rightarrow>
                       if k \<in> set [''products'', ''picklists'', ''warehouses'']
                       then Some \<lparr> lastSyncDate = None, totalCount = 0,
                                   stat_status = ''Not synced yet'' \<rparr>
                       else None)
             (syncInProgress st1), st1))"

section \<open>The request queue of the client\<close>






















section \<open>Notions used in the statements\<close>

text \<open>
  The outcome the script holds for the \<open>k\<close>-th statement sent to the database from
  now on (\<open>0\<close> is the next one).
\<close>

definition fault_at :: "nat \<Rightarrow> state \<Rightarrow> string option" where
  "fault_at k st = (if k < length (faults st) then faults st ! k else None)"

text \<open>The console line of a failed insert into the table of the entity.\<close>

fun is_insert_error :: "entity \<Rightarrow> log_line \<Rightarrow> bool" where
  "is_insert_error e (InsertError e' _ _) = (e' = e)"
| "is_insert_error e _ = False"

text \<open>The entity has a row in \<^verbatim>\<open>sync_status\<close> whose status begins with \<^verbatim>\<open>error: \<close>.\<close>

definition status_begins_with_error :: "state \<Rightarrow> entity \<Rightarrow> bool" where
  "status_begins_with_error st e =
     (case sync_status st (entity_name e) of
        None \<Rightarrow> False
      | Some r \<Rightarrow> take 7 (status r) = ''error: '')"

text \<open>The \<^verbatim>\<open>stats\<close> object of an answer of \<^verbatim>\<open>GET /api/stats\<close>.\<close>

fun stats_of :: "stats_response \<Rightarrow> (string \<rightharpoonup> stat_entry)" where
  "stats_of (StatsOk stats _) = stats"
| "stats_of (StatsFailed _) = Map.empty"

section \<open>Concrete runs\<close>

text \<open>
  A remote service whose product collection holds the identifier 1 twice, whose
  picklist endpoint times out and which has three warehouses.
\<close>

definition example_api :: picqer where
  "example_api = \<lparr>
     getProducts = Body [Product 1 ''Chair'' (Some ''CH-1'') None (Some 4999) (Some 3),
                         Product 1 ''Chair again'' None None None None,
                         Product 2 ''Table'' None (Some ''871234'') (Some 12900) None],
     getPicklists = Rejected ''timeout'',
     getWarehouses = Body [Warehouse 7 ''Main'', Warehouse 8 ''Outlet'', Warehouse 9 ''Returns''] \<rparr>"

text \<open>The same service when its host name does not resolve.\<close>

definition unreachable_api :: picqer where
  "unreachable_api = \<lparr>
     getProducts = Rejected ''getaddrinfo ENOTFOUND mycompany.picqer.example'',
     getPicklists = Rejected ''getaddrinfo ENOTFOUND mycompany.picqer.example'',
     getWarehouses = Rejected ''getaddrinfo ENOTFOUND mycompany.picqer.example'' \<rparr>"

text \<open>
  An orchestrator run in progress.
\<close>

definition running_state :: state where
  "running_state = initial_state\<lparr>syncInProgress := True\<rparr>"

text \<open>
  The state after a first product sync at time 1000, and that state at time 2000: with
  the database well, when the next statement sent to the database fails, and when the
  next two statements fail.
\<close>

definition after_first_sync :: state where
  "after_first_sync = snd (syncProducts example_api (initial_state\<lparr>now := 1000\<rparr>))"

definition later_state :: state where
  "later_state = after_first_sync\<lparr>now := 2000\<rparr>"

definition outage_state :: state where
  "outage_state = after_first_sync\<lparr>faults := [Some ''Connection lost''], now := 2000\<rparr>"

definition db_down_state :: state where
  "db_down_state = after_first_sync\<lparr>faults := [Some ''Connection is closed.'',
     Some ''Connection is closed.''], now := 2000\<rparr>"

text \<open>The service of the example when its product endpoint times out too.\<close>

definition timeout_api :: picqer where
  "timeout_api = example_api\<lparr>getProducts := Rejected ''timeout''\<rparr>"

section \<open>What each operation leaves unchanged\<close>

lemma next_fault_flag:
  "next_fault st = (f, st1) \<Longrightarrow>
     next_fault (st\<lparr>syncInProgress := b\<rparr>) = (f, st1\<lparr>syncInProgress := b\<rparr>)"
  by (auto simp: next_fault_def split: list.splits)

lemma deleteAll_flag:
  "deleteAll e st = (f, st1) \<Longrightarrow>
     deleteAll e (st\<lparr>syncInProgress := b\<rparr>) = (f, st1\<lparr>syncInProgress := b\<rparr>)"
  by (cases "next_fault st")
     (auto simp: deleteAll_def next_fault_flag split: option.splits)

lemma insertRow_flag:
  "insertRow e r st = (f, st1) \<Longrightarrow>
     insertRow e r (st\<lparr>syncInProgress := b\<rparr>) = (f, st1\<lparr>syncInProgress := b\<rparr>)"
  by (cases "next_fault st")
     (auto simp: insertRow_def next_fault_flag split: option.splits if_splits)

lemma logError_flag:
  "logError l (st\<lparr>syncInProgress := b\<rparr>) = (logError l st)\<lparr>syncInProgress := b\<rparr>"
  by (simp add: logError_def)

lemma insertRows_flag:
  "insertRows e rs n st = (n', st1) \<Longrightarrow>
     insertRows e rs n (st\<lparr>syncInProgress := b\<rparr>) = (n', st1\<lparr>syncInProgress := b\<rparr>)"
proof (induction rs arbitrary: n st)
  case Nil
  then show ?case by auto
next
  case (Cons r rs)
  obtain f sta where ins: "insertRow e r st = (f, sta)"
    by (cases "insertRow e r st")
  show ?case
  proof (cases f)
    case None
    with Cons.prems ins have "insertRows e rs (Suc n) sta = (n', st1)" by simp
    from Cons.IH [OF this] ins None show ?thesis
      by (simp add: insertRow_flag)
  next
    case (Some m)
    with Cons.prems ins
    have "insertRows e rs n (logError (InsertError e (row_id r) m) sta) = (n', st1)" by simp
    from Cons.IH [OF this] ins Some show ?thesis
      by (simp add: insertRow_flag logError_flag)
  qed
qed

lemma upsertSuccessStatus_flag:
  "upsertSuccessStatus e n st = (f, st1) \<Longrightarrow>
     upsertSuccessStatus e n (st\<lparr>syncInProgress := b\<rparr>) = (f, st1\<lparr>syncInProgress := b\<rparr>)"
  by (cases "next_fault st")
     (auto simp: upsertSuccessStatus_def next_fault_flag split: option.splits if_splits)

lemma upsertErrorStatus_flag:
  "upsertErrorStatus e err st = (f, st1) \<Longrightarrow>
     upsertErrorStatus e err (st\<lparr>syncInProgress := b\<rparr>) = (f, st1\<lparr>syncInProgress := b\<rparr>)"
  by (cases "next_fault st")
     (auto simp: upsertErrorStatus_def next_fault_flag split: option.splits if_splits)

lemma request_flag:
  "request m p (st\<lparr>syncInProgress := b\<rparr>) = (request m p st)\<lparr>syncInProgress := b\<rparr>"
  by (simp add: request_def)

lemma catchSync_flag:
  "catchSync e msg st = (res, st1) \<Longrightarrow>
     catchSync e msg (st\<lparr>syncInProgress := b\<rparr>) = (res, st1\<lparr>syncInProgress := b\<rparr>)"
  by (cases "upsertErrorStatus e (take 255 msg) (logError (SyncError e msg) st)")
     (auto simp: catchSync_def logError_flag upsertErrorStatus_flag split: option.splits)

lemma trySync_flag:
  "trySync e resp (st\<lparr>syncInProgress := b\<rparr>)
     = (case trySync e resp st of
          Inl (m, st1) \<Rightarrow> Inl (m, st1\<lparr>syncInProgress := b\<rparr>)
        | Inr (n, st1) \<Rightarrow> Inr (n, st1\<lparr>syncInProgress := b\<rparr>))"
proof (cases resp)
  case (Rejected m)
  then show ?thesis by (simp add: trySync_def request_flag)
next
  case (Body rows)
  let ?st0 = "request ''get'' (entity_name e) st"
  obtain f st1 where del: "deleteAll e ?st0 = (f, st1)"
    by (cases "deleteAll e ?st0")
  obtain n st2 where ins: "insertRows e rows 0 st1 = (n, st2)"
    by (cases "insertRows e rows 0 st1")
  obtain g st3 where ups: "upsertSuccessStatus e n st2 = (g, st3)"
    by (cases "upsertSuccessStatus e n st2")
  from Body del ins ups show ?thesis
    by (simp add: trySync_def request_flag deleteAll_flag [OF del] insertRows_flag [OF ins]
          upsertSuccessStatus_flag [OF ups] split: option.splits)
qed

lemma syncEntity_flag:
  "syncEntity e resp st = (res, st1) \<Longrightarrow>
     syncEntity e resp (st\<lparr>syncInProgress := b\<rparr>) = (res, st1\<lparr>syncInProgress := b\<rparr>)"
  by (cases "trySync e resp st")
     (auto simp: syncEntity_def trySync_flag catchSync_flag)

lemma next_fault_frame:
  "next_fault st = (f, st1) \<Longrightarrow> tables st1 = tables st \<and> sync_status st1 = sync_status st
     \<and> syncInProgress st1 = syncInProgress st \<and> lastSyncResults st1 = lastSyncResults st
     \<and> console st1 = console st \<and> requested st1 = requested st \<and> now st1 = now st
     \<and> faults st1 = tl (faults st) \<and> f = fault_at 0 st"
  by (auto simp: next_fault_def fault_at_def split: list.splits)


lemma deleteAll_frame:
  "deleteAll e st = (f, st1) \<Longrightarrow> sync_status st1 = sync_status st
     \<and> lastSyncResults st1 = lastSyncResults st
     \<and> console st1 = console st \<and> requested st1 = requested st \<and> now st1 = now st
     \<and> faults st1 = tl (faults st) \<and> f = fault_at 0 st
     \<and> tables st1 = (if f = None then (tables st)(e := []) else tables st)"
  by (cases "next_fault st")
     (auto simp: deleteAll_def dest!: next_fault_frame split: option.splits)

lemma insertRow_frame:
  "insertRow e r st = (f, st1) \<Longrightarrow> sync_status st1 = sync_status st
     \<and> lastSyncResults st1 = lastSyncResults st
     \<and> console st1 = console st \<and> requested st1 = requested st \<and> now st1 = now st
     \<and> faults st1 = tl (faults st)
     \<and> tables st1 = (if f = None then (tables st)(e := tables st e @ [(r, now st)])
                      else tables st)"
  by (cases "next_fault st")
     (auto simp: insertRow_def dest!: next_fault_frame split: option.splits if_splits)

lemma logError_frame:
  "tables (logError l st) = tables st \<and> sync_status (logError l st) = sync_status st
     \<and> lastSyncResults (logError l st) = lastSyncResults st
     \<and> console (logError l st) = console st @ [l]
     \<and> requested (logError l st) = requested st \<and> now (logError l st) = now st
     \<and> faults (logError l st) = faults st"
  by (simp add: logError_def)

lemma insertRows_frame:
  "insertRows e rs n st = (n', st1) \<Longrightarrow> sync_status st1 = sync_status st
     \<and> lastSyncResults st1 = lastSyncResults st
     \<and> requested st1 = requested st \<and> now st1 = now st
     \<and> faults st1 = drop (length rs) (faults st)
     \<and> (\<forall>e'. e' \<noteq> e \<longrightarrow> tables st1 e' = tables st e')"
proof (induction rs arbitrary: n st)
  case Nil
  then show ?case by auto
next
  case (Cons r rs)
  obtain f sta where ins: "insertRow e r st = (f, sta)"
    by (cases "insertRow e r st")
  note fr = insertRow_frame [OF ins]
  show ?case
  proof (cases f)
    case None
    with Cons.prems ins have "insertRows e rs (Suc n) sta = (n', st1)" by simp
    from Cons.IH [OF this] fr None show ?thesis
      by (simp add: drop_Suc)
  next
    case (Some m)
    with Cons.prems ins
    have "insertRows e rs n (logError (InsertError e (row_id r) m) sta) = (n', st1)" by simp
    from Cons.IH [OF this] fr Some show ?thesis
      by (simp add: logError_frame drop_Suc)
  qed
qed

lemma insertRows_count:
  "insertRows e rs n st = (n', st1) \<Longrightarrow>
     \<exists>new. console st1 = console st @ new \<and> list_all (is_insert_error e) new
       \<and> n' + length new = n + length rs
       \<and> length (tables st1 e) + length new = length (tables st e) + length rs"
proof (induction rs arbitrary: n st)
  case Nil
  then show ?case by auto
next
  case (Cons r rs)
  obtain f sta where ins: "insertRow e r st = (f, sta)"
    by (cases "insertRow e r st")
  note fr = insertRow_frame [OF ins]
  show ?case
  proof (cases f)
    case None
    with Cons.prems ins have "insertRows e rs (Suc n) sta = (n', st1)" by simp
    from Cons.IH [OF this] obtain new where
      "console st1 = console sta @ new" "list_all (is_insert_error e) new"
      "n' + length new = Suc n + length rs"
      "length (tables st1 e) + length new = length (tables sta e) + length rs"
      by blast
    with fr None show ?thesis by (intro exI [of _ new]) simp
  next
    case (Some m)
    let ?l = "InsertError e (row_id r) m"
    from Some Cons.prems ins
    have "insertRows e rs n (logError ?l sta) = (n', st1)" by simp
    from Cons.IH [OF this] obtain new where
      "console st1 = console (logError ?l sta) @ new" "list_all (is_insert_error e) new"
      "n' + length new = n + length rs"
      "length (tables st1 e) + length new = length (tables (logError ?l sta) e) + length rs"
      by blast
    with fr Some show ?thesis
      by (intro exI [of _ "?l # new"]) (simp add: logError_frame)
  qed
qed

lemma upsertSuccessStatus_frame:
  "upsertSuccessStatus e n st = (f, st1) \<Longrightarrow> tables st1 = tables st
     \<and> lastSyncResults st1 = lastSyncResults st
     \<and> console st1 = console st \<and> requested st1 = requested st \<and> now st1 = now st
     \<and> faults st1 = tl (faults st) \<and> f = fault_at 0 st
     \<and> (if f = None
         then sync_status st1 = (sync_status st)(entity_name e \<mapsto>
                \<lparr>last_sync = now st, record_count = n, status = ''success''\<rparr>)
         else sync_status st1 = sync_status st)"
  by (cases "next_fault st")
     (auto simp: upsertSuccessStatus_def status_width_def dest!: next_fault_frame
           split: option.splits if_splits)

lemma upsertErrorStatus_frame:
  "upsertErrorStatus e err st = (f, st1) \<Longrightarrow> tables st1 = tables st
     \<and> lastSyncResults st1 = lastSyncResults st
     \<and> console st1 = console st \<and> requested st1 = requested st \<and> now st1 = now st
     \<and> faults st1 = tl (faults st)
     \<and> (if f = None
         then sync_status st1 = (sync_status st)(entity_name e \<mapsto>
                (case sync_status st (entity_name e) of
                   Some r \<Rightarrow> r\<lparr>last_sync := now st, status := ''error: '' @ err\<rparr>
                 | None \<Rightarrow> \<lparr>last_sync = now st, record_count = 0, status = ''error: '' @ err\<rparr>))
         else sync_status st1 = sync_status st)"
  by (cases "next_fault st")
     (auto simp: upsertErrorStatus_def dest!: next_fault_frame
           split: option.splits if_splits)


lemma request_frame:
  "tables (request m p st) = tables st \<and> sync_status (request m p st) = sync_status st
     \<and> lastSyncResults (request m p st) = lastSyncResults st
     \<and> console (request m p st) = console st
     \<and> requested (request m p st) = requested st @ [(m, p)] \<and> now (request m p st) = now st
     \<and> faults (request m p st) = faults st"
  by (simp add: request_def)

lemma catchSync_result: "fst (catchSync e msg st) = Failure msg"
  by (simp add: catchSync_def split: prod.splits option.splits)

lemma syncEntity_Success:
  "syncEntity e resp st = (Success n, st') \<longleftrightarrow> trySync e resp st = Inr (n, st')"
proof (cases "trySync e resp st")
  case (Inl a)
  obtain m sta where "a = (m, sta)" by (cases a)
  with Inl catchSync_result [of e m sta] show ?thesis
    by (cases "catchSync e m sta") (auto simp: syncEntity_def)
next
  case (Inr b)
  then show ?thesis by (cases b) (auto simp: syncEntity_def)
qed

lemma syncEntity_Failure:
  "fst (syncEntity e resp st) = Failure msg \<longleftrightarrow> (\<exists>st1. trySync e resp st = Inl (msg, st1))"
proof (cases "trySync e resp st")
  case (Inl a)
  obtain m sta where "a = (m, sta)" by (cases a)
  with Inl catchSync_result [of e m sta] show ?thesis
    by (auto simp: syncEntity_def)
next
  case (Inr b)
  then show ?thesis by (cases b) (auto simp: syncEntity_def)
qed

lemma trySync_Inr:
  assumes "trySync e resp st = Inr (n, st')"
  shows "\<exists>rows new. resp = Body rows \<and> length (tables st' e) = n
           \<and> console st' = console st @ new \<and> list_all (is_insert_error e) new
           \<and> n + length new = length rows
           \<and> sync_status st' (entity_name e)
               = Some \<lparr>last_sync = now st, record_count = n, status = ''success''\<rparr>"
proof (cases resp)
  case (Rejected m)
  with assms show ?thesis by (simp add: trySync_def)
next
  case (Body rows)
  let ?st0 = "request ''get'' (entity_name e) st"
  obtain f st1 where del: "deleteAll e ?st0 = (f, st1)"
    by (cases "deleteAll e ?st0")
  obtain k st2 where ins: "insertRows e rows 0 st1 = (k, st2)"
    by (cases "insertRows e rows 0 st1")
  obtain g st3 where ups: "upsertSuccessStatus e k st2 = (g, st3)"
    by (cases "upsertSuccessStatus e k st2")
  from assms Body del ins ups have ok: "f = None" "g = None" "k = n" "st3 = st'"
    by (auto simp: trySync_def split: option.splits)
  note d = deleteAll_frame [OF del] and i = insertRows_frame [OF ins]
    and u = upsertSuccessStatus_frame [OF ups]
  from insertRows_count [OF ins] obtain new where new:
    "console st2 = console st1 @ new" "list_all (is_insert_error e) new"
    "k + length new = length rows"
    "length (tables st2 e) + length new = length (tables st1 e) + length rows"
    by auto
  from d ok have "tables st1 e = []" by simp
  with new ok have len: "length (tables st2 e) = n" by simp
  from d i u ok have stat: "sync_status st' (entity_name e)
      = Some \<lparr>last_sync = now st, record_count = n, status = ''success''\<rparr>"
    by (simp add: request_frame)
  from d u new ok have con: "console st' = console st @ new"
    by (simp add: request_frame)
  from u ok len have "length (tables st' e) = n" by simp
  with Body new ok stat con show ?thesis by auto
qed


lemma trySync_requested:
  "trySync e resp st = Inl (m, st1) \<Longrightarrow> requested st1 = requested st @ [(''get'', entity_name e)]"
  "trySync e resp st = Inr (n, st2) \<Longrightarrow> requested st2 = requested st @ [(''get'', entity_name e)]"
proof -
  let ?st0 = "request ''get'' (entity_name e) st"
  have both: "(trySync e resp st = Inl (m, st1) \<longrightarrow>
        requested st1 = requested st @ [(''get'', entity_name e)])
     \<and> (trySync e resp st = Inr (n, st2) \<longrightarrow>
        requested st2 = requested st @ [(''get'', entity_name e)])"
  proof (cases resp)
    case (Rejected x)
    then show ?thesis by (auto simp: trySync_def request_frame)
  next
    case (Body rows)
    obtain f sta where del: "deleteAll e ?st0 = (f, sta)"
      by (cases "deleteAll e ?st0")
    obtain k stb where ins: "insertRows e rows 0 sta = (k, stb)"
      by (cases "insertRows e rows 0 sta")
    obtain g stc where ups: "upsertSuccessStatus e k stb = (g, stc)"
      by (cases "upsertSuccessStatus e k stb")
    note d = deleteAll_frame [OF del] and i = insertRows_frame [OF ins]
      and u = upsertSuccessStatus_frame [OF ups]
    from Body del ins ups d i u show ?thesis
      by (auto simp: trySync_def request_frame split: option.splits)
  qed
  from both show "trySync e resp st = Inl (m, st1) \<Longrightarrow>
      requested st1 = requested st @ [(''get'', entity_name e)]"
    by simp
  from both show "trySync e resp st = Inr (n, st2) \<Longrightarrow>
      requested st2 = requested st @ [(''get'', entity_name e)]"
    by simp
qed

lemma catchSync_frame:
  "tables (snd (catchSync e msg st)) = tables st
     \<and> requested (snd (catchSync e msg st)) = requested st
     \<and> now (snd (catchSync e msg st)) = now st
     \<and> lastSyncResults (snd (catchSync e msg st)) = lastSyncResults st"
proof -
  let ?st1 = "logError (SyncError e msg) st"
  obtain f st2 where ups: "upsertErrorStatus e (take 255 msg) ?st1 = (f, st2)"
    by (cases "upsertErrorStatus e (take 255 msg) ?st1")
  from ups upsertErrorStatus_frame [OF ups] show ?thesis
    by (cases f) (simp_all add: catchSync_def logError_frame)
qed

lemma syncEntity_requested:
  "requested (snd (syncEntity e resp st)) = requested st @ [(''get'', entity_name e)]"
proof (cases "trySync e resp st")
  case (Inl a)
  obtain m sta where a: "a = (m, sta)" by (cases a)
  with Inl trySync_requested(1) [of e resp st m sta] show ?thesis
    by (simp add: syncEntity_def catchSync_frame)
next
  case (Inr b)
  obtain n stb where b: "b = (n, stb)" by (cases b)
  with Inr trySync_requested(2) [of e resp st n stb] show ?thesis
    by (simp add: syncEntity_def)
qed

lemma syncEntity_keeps_flag:
  "syncInProgress (snd (syncEntity e resp st)) = syncInProgress st"
proof -
  let ?R = "syncEntity e resp st"
  have "syncEntity e resp (st\<lparr>syncInProgress := syncInProgress st\<rparr>)
      = (fst ?R, (snd ?R)\<lparr>syncInProgress := syncInProgress st\<rparr>)"
    by (rule syncEntity_flag) simp
  then have "?R = (fst ?R, (snd ?R)\<lparr>syncInProgress := syncInProgress st\<rparr>)"
    by simp
  from arg_cong [OF this, where f = "\<lambda>p. syncInProgress (snd p)"] show ?thesis
    by (simp only: snd_conv) simp
qed

lemma trySync_fetch_or_delete_fails:
  assumes "resp = Rejected msg \<or> (\<exists>rows fs. resp = Body rows \<and> faults st = Some msg # fs)"
  shows "\<exists>st1. trySync e resp st = Inl (msg, st1) \<and> tables st1 = tables st
     \<and> sync_status st1 = sync_status st \<and> console st1 = console st \<and> now st1 = now st"
  using assms
proof
  assume "resp = Rejected msg"
  then show ?thesis
    by (simp add: trySync_def request_frame)
next
  assume "\<exists>rows fs. resp = Body rows \<and> faults st = Some msg # fs"
  then obtain rows fs where b: "resp = Body rows" "faults st = Some msg # fs"
    by blast
  let ?st0 = "request ''get'' (entity_name e) st"
  obtain f st1 where del: "deleteAll e ?st0 = (f, st1)"
    by (cases "deleteAll e ?st0")
  note d = deleteAll_frame [OF del]
  from b have "fault_at 0 ?st0 = Some msg"
    by (simp add: fault_at_def request_frame)
  with d have f: "f = Some msg" by simp
  from del f have del': "deleteAll e ?st0 = (Some msg, st1)" by simp
  from d f have fr: "tables st1 = tables st" "sync_status st1 = sync_status st"
      "console st1 = console st" "now st1 = now st"
    by (simp_all add: request_frame)
  from b(1) del' fr show ?thesis
    by (simp add: trySync_def)
qed

lemma catchSync_upsert_fails:
  assumes "upsertErrorStatus e (take 255 msg) (logError (SyncError e msg) st) = (Some m2, st2)"
  shows "catchSync e msg st = (Failure msg, logError (StatusUpdateError m2) st2)"
    and "sync_status (logError (StatusUpdateError m2) st2) = sync_status st"
    and "console (logError (StatusUpdateError m2) st2)
           = console st @ [SyncError e msg, StatusUpdateError m2]"
    and "tables (logError (StatusUpdateError m2) st2) = tables st"
  using assms upsertErrorStatus_frame [OF assms]
  by (simp_all add: catchSync_def logError_frame)

lemma trySync_Inl_frame:
  assumes "trySync e resp st = Inl (m, st1)"
  shows "sync_status st1 = sync_status st \<and> now st1 = now st
     \<and> lastSyncResults st1 = lastSyncResults st"
proof (cases resp)
  case (Rejected x)
  with assms show ?thesis by (auto simp: trySync_def request_frame)
next
  case (Body rows)
  let ?st0 = "request ''get'' (entity_name e) st"
  obtain f sta where del: "deleteAll e ?st0 = (f, sta)"
    by (cases "deleteAll e ?st0")
  obtain k stb where ins: "insertRows e rows 0 sta = (k, stb)"
    by (cases "insertRows e rows 0 sta")
  obtain g stc where ups: "upsertSuccessStatus e k stb = (g, stc)"
    by (cases "upsertSuccessStatus e k stb")
  note d = deleteAll_frame [OF del] and i = insertRows_frame [OF ins]
    and u = upsertSuccessStatus_frame [OF ups]
  show ?thesis
  proof (cases f)
    case (Some x)
    with assms Body del have "st1 = sta" by (simp add: trySync_def)
    with d show ?thesis by (simp add: request_frame)
  next
    case None
    with assms Body del ins ups obtain x where "g = Some x" "st1 = stc"
      by (cases g) (simp_all add: trySync_def)
    with d i u show ?thesis by (simp add: request_frame)
  qed
qed

lemma catchSync_status:
  "sync_status (snd (catchSync e msg st)) =
     (if fst (upsertErrorStatus e (take 255 msg) (logError (SyncError e msg) st)) = None
      then (sync_status st)(entity_name e \<mapsto>
             (case sync_status st (entity_name e) of
                Some r \<Rightarrow> r\<lparr>last_sync := now st, status := ''error: '' @ take 255 msg\<rparr>
              | None \<Rightarrow> \<lparr>last_sync = now st, record_count = 0,
                         status = ''error: '' @ take 255 msg\<rparr>))
      else sync_status st)"
proof -
  let ?st1 = "logError (SyncError e msg) st"
  obtain f st2 where ups: "upsertErrorStatus e (take 255 msg) ?st1 = (f, st2)"
    by (cases "upsertErrorStatus e (take 255 msg) ?st1")
  from ups upsertErrorStatus_frame [OF ups] show ?thesis
    by (cases f) (simp_all add: catchSync_def logError_frame cong: option.case_cong)
qed

lemma getStats_accepted:
  assumes "fault_at 0 st = None"
  shows "stats_of (fst (getStats st)) k =
     (case sync_status st k of
        Some r \<Rightarrow> Some \<lparr> lastSyncDate = Some (last_sync r), totalCount = record_count r,
                          stat_status = status r \<rparr>
      | None \<Rightarrow>
          if k \<in> set [''products'', ''picklists'', ''warehouses'']
          then Some \<lparr> lastSyncDate = None, totalCount = 0, stat_status = ''Not synced yet'' \<rparr>
          else None)"
proof -
  obtain f st1 where nf: "next_fault st = (f, st1)"
    by (cases "next_fault st")
  from next_fault_frame [OF nf] assms nf show ?thesis
    by (simp add: getStats_def)
qed

text \<open>A status that does not fit the column is never stored.\<close>

lemma upsertErrorStatus_too_long:
  assumes "status_width < length (''error: '' @ err)"
  shows "fst (upsertErrorStatus e err st) \<noteq> None
     \<and> sync_status (snd (upsertErrorStatus e err st)) = sync_status st"
proof -
  obtain f st1 where nf: "next_fault st = (f, st1)"
    by (cases "next_fault st")
  from next_fault_frame [OF nf] have "sync_status st1 = sync_status st"
    by simp
  with nf assms show ?thesis
    by (cases f) (simp_all add: upsertErrorStatus_def)
qed

section \<open>A sync on its own is the procedure\<close>








section \<open>The queue: order, one call at a time, spacing\<close>















section \<open>The claims\<close>

text \<open>
  C1. A run of \<^verbatim>\<open>syncAll\<close> that is not refused returns the combined result of the
  three procedures run in the order products, picklists, warehouses, each on the state
  the one before left, and its overall \<open>success\<close> is true exactly when at least one of
  the three results has \<open>success = true\<close>; it is false only when all three failed.
\<close>

theorem syncAll_success_any:
  assumes "\<not> syncInProgress st"
  shows "\<exists>c st'. syncAll api st = (Combined c, st')
     \<and> products c = fst (syncProducts api (st\<lparr>syncInProgress := True\<rparr>))
     \<and> picklists c = fst (syncPicklists api
          (snd (syncProducts api (st\<lparr>syncInProgress := True\<rparr>))))
     \<and> warehouses c = fst (syncWarehouses api (snd (syncPicklists api
          (snd (syncProducts api (st\<lparr>syncInProgress := True\<rparr>))))))
     \<and> success c = (is_success (products c) \<or> is_success (picklists c)
          \<or> is_success (warehouses c))
     \<and> (\<not> success c) = (\<not> is_success (products c) \<and> \<not> is_success (picklists c)
          \<and> \<not> is_success (warehouses c))
     \<and> lastSyncResults st' = Some c"
  using assms by (simp add: syncAll_def Let_def split: prod.splits)

text \<open>
  The run of the specification's example: products succeed, picklists fail with
  \<^verbatim>\<open>timeout\<close>, warehouses succeed, and the combined result is a success.
\<close>

theorem syncAll_success_any_witness:
  "\<not> syncInProgress initial_state
   \<and> (\<exists>c st'. syncAll example_api initial_state = (Combined c, st')
        \<and> products c = Success 2 \<and> picklists c = Failure ''timeout''
        \<and> warehouses c = Success 3 \<and> success c)"
proof -
  have h: "\<not> syncInProgress initial_state"
    by (simp add: initial_state_def)
  have p: "fst (syncProducts example_api (initial_state\<lparr>syncInProgress := True\<rparr>)) = Success 2"
    by code_simp
  have l: "fst (syncPicklists example_api
          (snd (syncProducts example_api (initial_state\<lparr>syncInProgress := True\<rparr>))))
        = Failure ''timeout''"
    by code_simp
  have w: "fst (syncWarehouses example_api (snd (syncPicklists example_api
          (snd (syncProducts example_api (initial_state\<lparr>syncInProgress := True\<rparr>))))))
        = Success 3"
    by code_simp
  from syncAll_success_any [OF h, of example_api] p l w show ?thesis
    using h by auto
qed

text \<open>
  C2. A sync that fails at the fetch or at the \<^verbatim>\<open>DELETE\<close> is to store, for its
  entity, the status \<^verbatim>\<open>error: \<close> followed by the first 255 characters of the
  message, and to return the failure. The handler sends that upsert, but the column holds
  50 characters, so a message of more than 43 characters is never stored. Here the host
  name of the remote service does not resolve, the database is well, and the message
  has 46 characters: the upsert fails with the truncation error, the failure is
  swallowed, and the procedure returns the failure with no status stored: no row when
  there was none, and the status \<^verbatim>\<open>success\<close> of the earlier sync when there was one.
\<close>

theorem long_error_status_not_stored:
  "getProducts unreachable_api = Rejected ''getaddrinfo ENOTFOUND mycompany.picqer.example''
   \<and> faults initial_state = [] \<and> faults later_state = []
   \<and> fst (syncProducts unreachable_api initial_state)
       = Failure ''getaddrinfo ENOTFOUND mycompany.picqer.example''
   \<and> drop 1 (console (snd (syncProducts unreachable_api initial_state)))
       = [StatusUpdateError truncation_error]
   \<and> sync_status (snd (syncProducts unreachable_api initial_state)) ''products'' = None
   \<and> fst (syncProducts unreachable_api later_state)
       = Failure ''getaddrinfo ENOTFOUND mycompany.picqer.example''
   \<and> sync_status (snd (syncProducts unreachable_api later_state)) ''products''
       = Some \<lparr>last_sync = 1000, record_count = 2, status = ''success''\<rparr>"
  by code_simp

text \<open>
  C3. While the flag is set, \<^verbatim>\<open>syncAll\<close> returns
  \<^verbatim>\<open>{success: false, error: "Sync already in progress"}\<close> and leaves the whole state as
  it is: no request is handed to the client, no table changes, the flag stays set.
\<close>

theorem syncAll_rejected_when_running:
  assumes "syncInProgress st"
  shows "syncAll api st = (ErrorResult ''Sync already in progress'', st)"
  using assms by (simp add: syncAll_def)

theorem syncAll_rejected_when_running_witness:
  "syncInProgress running_state
   \<and> fst (syncAll example_api running_state) = ErrorResult ''Sync already in progress''
   \<and> requested (snd (syncAll example_api running_state)) = []
   \<and> sync_status (snd (syncAll example_api running_state)) ''products'' = None
   \<and> syncInProgress (snd (syncAll example_api running_state))"
proof -
  have h: "syncInProgress running_state"
    by (simp add: running_state_def initial_state_def)
  from syncAll_rejected_when_running [OF h, of example_api] h show ?thesis
    by (simp add: running_state_def initial_state_def)
qed

text \<open>
  C4, as the code has it. When the fetch is rejected the procedure returns the error and
  leaves every table as it was. Then the error upsert is tried: when the database
  executes it, the entity's status is \<^verbatim>\<open>error: \<close> followed by the first 255 characters
  of the message; when the upsert fails, the failure is swallowed and
  \<^verbatim>\<open>sync_status\<close> is as it was, so the status need not begin with \<^verbatim>\<open>error: \<close>.
\<close>

theorem fetch_failure_keeps_rows:
  "fst (syncEntity e (Rejected msg) st) = Failure msg
   \<and> tables (snd (syncEntity e (Rejected msg) st)) = tables st
   \<and> (if fst (upsertErrorStatus e (take 255 msg)
             (logError (SyncError e msg) (request ''get'' (entity_name e) st))) = None
       then sync_status (snd (syncEntity e (Rejected msg) st)) (entity_name e)
              = Some (case sync_status st (entity_name e) of
                        Some r \<Rightarrow> r\<lparr>last_sync := now st, status := ''error: '' @ take 255 msg\<rparr>
                      | None \<Rightarrow> \<lparr>last_sync = now st, record_count = 0,
                                 status = ''error: '' @ take 255 msg\<rparr>)
            \<and> status_begins_with_error (snd (syncEntity e (Rejected msg) st)) e
       else sync_status (snd (syncEntity e (Rejected msg) st)) = sync_status st)"
proof -
  let ?st0 = "request ''get'' (entity_name e) st"
  have t: "syncEntity e (Rejected msg) st = catchSync e msg ?st0"
    by (simp add: syncEntity_def trySync_def)
  have "fst (syncEntity e (Rejected msg) st) = Failure msg"
    by (simp add: t catchSync_result)
  moreover have "tables (snd (syncEntity e (Rejected msg) st)) = tables st"
    by (simp add: t catchSync_frame request_frame)
  moreover have "sync_status (snd (syncEntity e (Rejected msg) st)) =
     (if fst (upsertErrorStatus e (take 255 msg) (logError (SyncError e msg) ?st0)) = None
      then (sync_status st)(entity_name e \<mapsto>
             (case sync_status st (entity_name e) of
                Some r \<Rightarrow> r\<lparr>last_sync := now st, status := ''error: '' @ take 255 msg\<rparr>
              | None \<Rightarrow> \<lparr>last_sync = now st, record_count = 0,
                         status = ''error: '' @ take 255 msg\<rparr>))
      else sync_status st)"
    by (simp add: t catchSync_status request_frame cong: option.case_cong)
  ultimately show ?thesis
    by (simp add: status_begins_with_error_def split: option.splits)
qed

text \<open>
  The product fetch times out after an earlier successful sync of two products, and the
  database is well: the two rows stay and the status is \<^verbatim>\<open>error: timeout\<close>.
\<close>

theorem fetch_failure_keeps_rows_witness:
  "fst (upsertErrorStatus Products (take 255 ''timeout'')
      (logError (SyncError Products ''timeout'')
        (request ''get'' (entity_name Products) later_state))) = None
   \<and> fst (syncEntity Products (Rejected ''timeout'') later_state) = Failure ''timeout''
   \<and> length (tables (snd (syncEntity Products (Rejected ''timeout'') later_state)) Products) = 2
   \<and> sync_status (snd (syncEntity Products (Rejected ''timeout'') later_state)) ''products''
       = Some \<lparr>last_sync = 2000, record_count = 2, status = ''error: timeout''\<rparr>
   \<and> status_begins_with_error (snd (syncEntity Products (Rejected ''timeout'') later_state))
       Products"
proof -
  have a: "fst (upsertErrorStatus Products (take 255 ''timeout'')
      (logError (SyncError Products ''timeout'')
        (request ''get'' (entity_name Products) later_state))) = None"
    by code_simp
  have r: "length (tables later_state Products) = 2"
    by code_simp
  have s: "sync_status later_state ''products''
      = Some \<lparr>last_sync = 1000, record_count = 2, status = ''success''\<rparr>"
    by code_simp
  have n: "now later_state = 2000"
    by (simp add: later_state_def)
  from fetch_failure_keeps_rows [of Products "''timeout''" later_state] a r s n
  show ?thesis
    by simp
qed

text \<open>
  The claim as stated fails: the same fetch failure while the database refuses the next
  statement leaves the status \<^verbatim>\<open>success\<close> of the earlier sync.
\<close>

theorem fetch_failure_status_counterexample:
  "getProducts timeout_api = Rejected ''timeout''
   \<and> fst (syncProducts timeout_api outage_state) = Failure ''timeout''
   \<and> sync_status (snd (syncProducts timeout_api outage_state)) ''products''
       = Some \<lparr>last_sync = 1000, record_count = 2, status = ''success''\<rparr>
   \<and> \<not> status_begins_with_error (snd (syncProducts timeout_api outage_state)) Products"
  by code_simp




text \<open>
  C6. When the fetch is rejected, or the \<^verbatim>\<open>DELETE\<close> fails, with the message \<open>msg\<close>,
  the procedure returns \<^verbatim>\<open>{success: false, error: msg}\<close> in every state, whatever the
  error upsert does. When that upsert fails, with the message \<open>m2\<close>, the failure is
  written to the console after the line of the original error and goes no further:
  the result is still the original error, and \<^verbatim>\<open>sync_status\<close> and the tables are as
  they were.
\<close>

theorem status_failure_swallowed:
  assumes "resp = Rejected msg \<or> (\<exists>rows fs. resp = Body rows \<and> faults st = Some msg # fs)"
  shows "fst (syncEntity e resp st) = Failure msg
     \<and> (\<exists>st1. trySync e resp st = Inl (msg, st1)
          \<and> (\<forall>m2 st2. upsertErrorStatus e (take 255 msg) (logError (SyncError e msg) st1)
                  = (Some m2, st2) \<longrightarrow>
                syncEntity e resp st = (Failure msg, logError (StatusUpdateError m2) st2)
                \<and> console (snd (syncEntity e resp st))
                    = console st @ [SyncError e msg, StatusUpdateError m2]
                \<and> sync_status (snd (syncEntity e resp st)) = sync_status st
                \<and> tables (snd (syncEntity e resp st)) = tables st))"
proof -
  from trySync_fetch_or_delete_fails [OF assms, of e] obtain st1 where
    t: "trySync e resp st = Inl (msg, st1)" and
    fr: "tables st1 = tables st" "sync_status st1 = sync_status st" "console st1 = console st"
    by blast
  have res: "fst (syncEntity e resp st) = Failure msg"
    using t by (simp add: syncEntity_def catchSync_result)
  have sw: "syncEntity e resp st = (Failure msg, logError (StatusUpdateError m2) st2)
      \<and> console (snd (syncEntity e resp st)) = console st @ [SyncError e msg, StatusUpdateError m2]
      \<and> sync_status (snd (syncEntity e resp st)) = sync_status st
      \<and> tables (snd (syncEntity e resp st)) = tables st"
    if u: "upsertErrorStatus e (take 255 msg) (logError (SyncError e msg) st1) = (Some m2, st2)"
    for m2 st2
    using t fr catchSync_upsert_fails [OF u] by (simp add: syncEntity_def)
  from res t sw show ?thesis by blast
qed

text \<open>
  The picklist endpoint times out while the database is unreachable: the result is the
  timeout, the console has both errors, and no status row is written.
\<close>

theorem status_failure_swallowed_witness:
  "fst (syncPicklists example_api (initial_state\<lparr>faults := [Some ''Connection lost'']\<rparr>))
     = Failure ''timeout''
   \<and> console (snd (syncPicklists example_api
        (initial_state\<lparr>faults := [Some ''Connection lost'']\<rparr>)))
     = [SyncError Picklists ''timeout'', StatusUpdateError ''Connection lost'']
   \<and> sync_status (snd (syncPicklists example_api
        (initial_state\<lparr>faults := [Some ''Connection lost'']\<rparr>))) ''picklists'' = None"
proof -
  let ?st = "initial_state\<lparr>faults := [Some ''Connection lost'']\<rparr>"
  let ?resp = "Rejected ''timeout'' :: row response"
  have eq: "syncPicklists example_api ?st = syncEntity Picklists ?resp ?st"
    by (simp add: syncPicklists_def example_api_def)
  have h: "?resp = Rejected ''timeout''
      \<or> (\<exists>rows fs. ?resp = Body rows \<and> faults ?st = Some ''timeout'' # fs)"
    by simp
  from status_failure_swallowed [OF h, of Picklists] obtain st1 where
    r: "fst (syncEntity Picklists ?resp ?st) = Failure ''timeout''" and
    t: "trySync Picklists ?resp ?st = Inl (''timeout'', st1)" and
    sw: "\<And>m2 st2. upsertErrorStatus Picklists (take 255 ''timeout'')
            (logError (SyncError Picklists ''timeout'') st1) = (Some m2, st2) \<Longrightarrow>
          console (snd (syncEntity Picklists ?resp ?st))
            = console ?st @ [SyncError Picklists ''timeout'', StatusUpdateError m2]
          \<and> sync_status (snd (syncEntity Picklists ?resp ?st)) = sync_status ?st"
    by blast
  from t have st1: "st1 = request ''get'' ''picklists'' ?st"
    by (simp add: trySync_def)
  have "fst (upsertErrorStatus Picklists (take 255 ''timeout'')
            (logError (SyncError Picklists ''timeout'') st1)) = Some ''Connection lost''"
    unfolding st1
    by (simp add: upsertErrorStatus_def next_fault_def logError_def request_def)
  then have "upsertErrorStatus Picklists (take 255 ''timeout'')
            (logError (SyncError Picklists ''timeout'') st1)
      = (Some ''Connection lost'', snd (upsertErrorStatus Picklists (take 255 ''timeout'')
            (logError (SyncError Picklists ''timeout'') st1)))"
    by (simp add: prod_eq_iff)
  from sw [OF this] r show ?thesis
    unfolding eq by (simp add: initial_state_def)
qed



text \<open>
  C8. \<^verbatim>\<open>POST /api/sync/:entity\<close> with an entity other than products, picklists and
  warehouses answers with code 400 and the body
  \<^verbatim>\<open>{success: false, message: "Unknown entity type: <entity>"}\<close>, and leaves the state as
  it is: no sync starts.
\<close>

theorem unknown_entity_bad_request:
  assumes "entity \<notin> set [''products'', ''picklists'', ''warehouses'']"
  shows "postSyncEntity api entity st
     = (\<lparr> code = 400, body = JObject [(''success'', JBool False),
            (''message'', JString (''Unknown entity type: '' @ entity))] \<rparr>, st)"
  using assms by (simp add: postSyncEntity_def unknown_entity_def)

theorem unknown_entity_bad_request_witness:
  "''foobar'' \<notin> set [''products'', ''picklists'', ''warehouses'']
   \<and> postSyncEntity example_api ''foobar'' initial_state
     = (\<lparr> code = 400, body = JObject [(''success'', JBool False),
            (''message'', JString ''Unknown entity type: foobar'')] \<rparr>, initial_state)"
proof -
  have h: "''foobar'' \<notin> set [''products'', ''picklists'', ''warehouses'']"
    by simp
  from unknown_entity_bad_request [OF h, of example_api initial_state] h show ?thesis
    by simp
qed

text \<open>
  C9. The single-entity procedures neither read nor write the flag. Whatever the flag
  is, \<^verbatim>\<open>POST /api/sync/:entity\<close> with one of the three entities answers that the sync
  has started, the entity's fetch is handed to the client, the state afterwards is the
  one the complete procedure leaves, with the flag as it was, and a run from the same
  state with the other value of the flag differs in nothing but the flag.
\<close>

theorem entity_sync_ignores_flag:
  "fst (postSyncEntity api (entity_name e) st) = sync_started (entity_name e)
   \<and> snd (postSyncEntity api ''products'' st) = snd (syncProducts api st)
   \<and> snd (postSyncEntity api ''picklists'' st) = snd (syncPicklists api st)
   \<and> snd (postSyncEntity api ''warehouses'' st) = snd (syncWarehouses api st)
   \<and> requested (snd (postSyncEntity api (entity_name e) st))
       = requested st @ [(''get'', entity_name e)]
   \<and> syncInProgress (snd (postSyncEntity api (entity_name e) st)) = syncInProgress st
   \<and> postSyncEntity api (entity_name e) (st\<lparr>syncInProgress := b\<rparr>)
       = (fst (postSyncEntity api (entity_name e) st),
          (snd (postSyncEntity api (entity_name e) st))\<lparr>syncInProgress := b\<rparr>)"
proof -
  have flag: "syncEntity e' resp (st\<lparr>syncInProgress := b\<rparr>)
      = (fst (syncEntity e' resp st), (snd (syncEntity e' resp st))\<lparr>syncInProgress := b\<rparr>)"
    for e' resp
    by (rule syncEntity_flag) simp
  have same: "syncInProgress (snd (syncEntity e' resp st)) = syncInProgress st" for e' resp
    by (rule syncEntity_keeps_flag)
  have req: "requested (snd (syncEntity e' resp st))
      = requested st @ [(''get'', entity_name e')]" for e' resp
    by (rule syncEntity_requested)
  show ?thesis
    by (cases e) (simp_all add: postSyncEntity_def syncProducts_def syncPicklists_def
        syncWarehouses_def flag same req)
qed

text \<open>
  A product sync requested while an orchestrator run is in progress: it is started, it
  fetches, it replaces the rows and records its status, and the flag is still set.
\<close>

theorem entity_sync_ignores_flag_witness:
  "syncInProgress running_state
   \<and> fst (postSyncEntity example_api ''products'' running_state) = sync_started ''products''
   \<and> requested (snd (postSyncEntity example_api ''products'' running_state))
       = [(''get'', ''products'')]
   \<and> length (tables (snd (postSyncEntity example_api ''products'' running_state)) Products) = 2
   \<and> sync_status (snd (postSyncEntity example_api ''products'' running_state)) ''products''
       = Some \<lparr>last_sync = 0, record_count = 2, status = ''success''\<rparr>
   \<and> syncInProgress (snd (postSyncEntity example_api ''products'' running_state))"
proof -
  have h: "syncInProgress running_state" "requested running_state = []"
    by (simp_all add: running_state_def initial_state_def)
  have t: "length (tables (snd (syncProducts example_api running_state)) Products) = 2"
    by code_simp
  have s: "sync_status (snd (syncProducts example_api running_state)) ''products''
       = Some \<lparr>last_sync = 0, record_count = 2, status = ''success''\<rparr>"
    by code_simp
  note T = entity_sync_ignores_flag [of example_api Products running_state True]
  from T [THEN conjunct1]
  have a: "fst (postSyncEntity example_api ''products'' running_state)
      = sync_started ''products''"
    by simp
  note b = T [THEN conjunct2, THEN conjunct1]
  from T [THEN conjunct2, THEN conjunct2, THEN conjunct2, THEN conjunct2, THEN conjunct1] h
  have c: "requested (snd (postSyncEntity example_api ''products'' running_state))
      = [(''get'', ''products'')]"
    by simp
  from T [THEN conjunct2, THEN conjunct2, THEN conjunct2, THEN conjunct2, THEN conjunct2,
      THEN conjunct1] h
  have d: "syncInProgress (snd (postSyncEntity example_api ''products'' running_state))"
    by simp
  from t s have "length (tables (snd (postSyncEntity example_api ''products'' running_state))
        Products) = 2"
    and "sync_status (snd (postSyncEntity example_api ''products'' running_state)) ''products''
       = Some \<lparr>last_sync = 0, record_count = 2, status = ''success''\<rparr>"
    by (simp_all only: b)
  with a c d h show ?thesis
    by blast
qed

text \<open>
  C10, as the code has it. The error upsert, when the database executes it, changes
  only \<^verbatim>\<open>last_sync\<close> and \<^verbatim>\<open>status\<close> of a row that exists, and inserts a row
  with \<^verbatim>\<open>record_count = 0\<close> when there is none. So after a sync that returned the
  count \<open>n\<close>, a failed sync of the same entity leaves \<open>record_count = n\<close>, and the
  reporter shows \<open>n\<close>: beside the error status and the new date when the error upsert
  was executed, beside the status \<^verbatim>\<open>success\<close> and the date of the earlier sync when
  that upsert failed and was swallowed.
\<close>

theorem failed_sync_keeps_record_count:
  "(\<forall>r sta stb err. sync_status sta (entity_name e) = Some r
        \<and> upsertErrorStatus e err sta = (None, stb) \<longrightarrow>
      sync_status stb (entity_name e)
        = Some (r\<lparr>last_sync := now sta, status := ''error: '' @ err\<rparr>))
   \<and> (\<forall>sta stb err. sync_status sta (entity_name e) = None
        \<and> upsertErrorStatus e err sta = (None, stb) \<longrightarrow>
      sync_status stb (entity_name e)
        = Some \<lparr>last_sync = now sta, record_count = 0, status = ''error: '' @ err\<rparr>)
   \<and> (\<forall>resp0 st0 n st1 st2 resp msg.
        syncEntity e resp0 st0 = (Success n, st1) \<and> sync_status st2 = sync_status st1
        \<and> fst (syncEntity e resp st2) = Failure msg \<longrightarrow>
      (\<exists>stf. trySync e resp st2 = Inl (msg, stf)
         \<and> sync_status (snd (syncEntity e resp st2)) (entity_name e)
             = Some (if fst (upsertErrorStatus e (take 255 msg)
                          (logError (SyncError e msg) stf)) = None
                     then \<lparr>last_sync = now st2, record_count = n,
                            status = ''error: '' @ take 255 msg\<rparr>
                     else \<lparr>last_sync = now st0, record_count = n, status = ''success''\<rparr>)
         \<and> (fault_at 0 (snd (syncEntity e resp st2)) = None \<longrightarrow>
              stats_of (fst (getStats (snd (syncEntity e resp st2)))) (entity_name e)
                = Some (if fst (upsertErrorStatus e (take 255 msg)
                             (logError (SyncError e msg) stf)) = None
                        then \<lparr>lastSyncDate = Some (now st2), totalCount = n,
                               stat_status = ''error: '' @ take 255 msg\<rparr>
                        else \<lparr>lastSyncDate = Some (now st0), totalCount = n,
                               stat_status = ''success''\<rparr>))))"
proof (intro conjI allI impI)
  fix r sta stb err
  assume a: "sync_status sta (entity_name e) = Some r
     \<and> upsertErrorStatus e err sta = (None, stb)"
  then have "upsertErrorStatus e err sta = (None, stb)" by simp
  from upsertErrorStatus_frame [OF this] a
  show "sync_status stb (entity_name e)
      = Some (r\<lparr>last_sync := now sta, status := ''error: '' @ err\<rparr>)"
    by simp
next
  fix sta stb err
  assume a: "sync_status sta (entity_name e) = None
     \<and> upsertErrorStatus e err sta = (None, stb)"
  then have "upsertErrorStatus e err sta = (None, stb)" by simp
  from upsertErrorStatus_frame [OF this] a
  show "sync_status stb (entity_name e)
      = Some \<lparr>last_sync = now sta, record_count = 0, status = ''error: '' @ err\<rparr>"
    by simp
next
  fix resp0 st0 n st1 st2 resp msg
  assume a: "syncEntity e resp0 st0 = (Success n, st1) \<and> sync_status st2 = sync_status st1
     \<and> fst (syncEntity e resp st2) = Failure msg"
  let ?r0 = "\<lparr>last_sync = now st0, record_count = n, status = ''success''\<rparr>"
  from a have "trySync e resp0 st0 = Inr (n, st1)"
    by (simp add: syncEntity_Success)
  from trySync_Inr [OF this] a have row: "sync_status st2 (entity_name e) = Some ?r0"
    by auto
  from a obtain stf where t: "trySync e resp st2 = Inl (msg, stf)"
    by (auto simp: syncEntity_Failure)
  note fr = trySync_Inl_frame [OF t]
  let ?acc = "fst (upsertErrorStatus e (take 255 msg) (logError (SyncError e msg) stf)) = None"
  let ?st' = "snd (syncEntity e resp st2)"
  from t have s: "?st' = snd (catchSync e msg stf)"
    by (simp add: syncEntity_def)
  have stat: "sync_status ?st' (entity_name e)
      = Some (if ?acc then \<lparr>last_sync = now st2, record_count = n,
                            status = ''error: '' @ take 255 msg\<rparr>
              else ?r0)"
    using fr row by (simp add: s catchSync_status)
  have rep: "stats_of (fst (getStats ?st')) (entity_name e)
        = Some (if ?acc then \<lparr>lastSyncDate = Some (now st2), totalCount = n,
                               stat_status = ''error: '' @ take 255 msg\<rparr>
                else \<lparr>lastSyncDate = Some (now st0), totalCount = n,
                       stat_status = ''success''\<rparr>)"
    if "fault_at 0 ?st' = None"
    using getStats_accepted [OF that, of "entity_name e"] stat by simp
  show "\<exists>stf. trySync e resp st2 = Inl (msg, stf)
         \<and> sync_status (snd (syncEntity e resp st2)) (entity_name e)
             = Some (if fst (upsertErrorStatus e (take 255 msg)
                          (logError (SyncError e msg) stf)) = None
                     then \<lparr>last_sync = now st2, record_count = n,
                            status = ''error: '' @ take 255 msg\<rparr>
                     else \<lparr>last_sync = now st0, record_count = n, status = ''success''\<rparr>)
         \<and> (fault_at 0 (snd (syncEntity e resp st2)) = None \<longrightarrow>
              stats_of (fst (getStats (snd (syncEntity e resp st2)))) (entity_name e)
                = Some (if fst (upsertErrorStatus e (take 255 msg)
                             (logError (SyncError e msg) stf)) = None
                        then \<lparr>lastSyncDate = Some (now st2), totalCount = n,
                               stat_status = ''error: '' @ take 255 msg\<rparr>
                        else \<lparr>lastSyncDate = Some (now st0), totalCount = n,
                               stat_status = ''success''\<rparr>))"
  proof (intro exI conjI impI)
    show "trySync e resp st2 = Inl (msg, stf)"
      by (rule t)
    show "sync_status ?st' (entity_name e)
      = Some (if ?acc then \<lparr>last_sync = now st2, record_count = n,
                            status = ''error: '' @ take 255 msg\<rparr>
              else ?r0)"
      by (rule stat)
    assume "fault_at 0 ?st' = None"
    then show "stats_of (fst (getStats ?st')) (entity_name e)
        = Some (if ?acc then \<lparr>lastSyncDate = Some (now st2), totalCount = n,
                               stat_status = ''error: '' @ take 255 msg\<rparr>
                else \<lparr>lastSyncDate = Some (now st0), totalCount = n,
                       stat_status = ''success''\<rparr>)"
      by (rule rep)
  qed
qed

text \<open>
  A product sync stores two rows at time 1000; at time 2000 the fetch times out and the
  database is well: the row keeps the count 2 beside the error status, and the reporter
  shows both. With no row at all, the error upsert inserts one with the count 0.
\<close>

theorem failed_sync_keeps_record_count_witness:
  "fst (syncProducts example_api (initial_state\<lparr>now := 1000\<rparr>)) = Success 2
   \<and> fst (syncProducts timeout_api later_state) = Failure ''timeout''
   \<and> sync_status (snd (syncProducts timeout_api later_state)) ''products''
       = Some \<lparr>last_sync = 2000, record_count = 2, status = ''error: timeout''\<rparr>
   \<and> stats_of (fst (getStats (snd (syncProducts timeout_api later_state)))) ''products''
       = Some \<lparr>lastSyncDate = Some 2000, totalCount = 2, stat_status = ''error: timeout''\<rparr>
   \<and> sync_status later_state ''products''
       = Some \<lparr>last_sync = 1000, record_count = 2, status = ''success''\<rparr>
   \<and> sync_status (snd (upsertErrorStatus Products ''timeout'' later_state)) ''products''
       = Some \<lparr>last_sync = 2000, record_count = 2, status = ''error: timeout''\<rparr>
   \<and> sync_status initial_state ''products'' = None
   \<and> sync_status (snd (upsertErrorStatus Products ''timeout'' initial_state)) ''products''
       = Some \<lparr>last_sync = 0, record_count = 0, status = ''error: timeout''\<rparr>"
proof -
  let ?body = "map_response productRow (getProducts example_api)"
  let ?start = "initial_state\<lparr>now := 1000\<rparr>"
  let ?resp = "Rejected ''timeout'' :: row response"
  let ?R = "syncEntity Products ?resp later_state"
  note T = failed_sync_keeps_record_count [of Products]
  have eq: "syncProducts timeout_api later_state = ?R"
    by (simp add: syncProducts_def timeout_api_def)
  have first: "fst (syncProducts example_api ?start) = Success 2"
    by code_simp
  then have first': "syncEntity Products ?body ?start = (Success 2, after_first_sync)"
    by (simp add: after_first_sync_def syncProducts_def prod_eq_iff)
  have env: "sync_status later_state = sync_status after_first_sync"
    "now later_state = 2000" "now ?start = 1000"
    by (simp_all add: later_state_def)
  have failed: "fst ?R = Failure ''timeout''"
    by code_simp
  from first' env(1) failed
  have pre: "syncEntity Products ?body ?start = (Success 2, after_first_sync)
      \<and> sync_status later_state = sync_status after_first_sync
      \<and> fst ?R = Failure ''timeout''"
    by (intro conjI)
  note E = T [THEN conjunct2, THEN conjunct2, rule_format, OF pre]
  from E
  obtain stf where
    t: "trySync Products ?resp later_state = Inl (''timeout'', stf)" and
    s: "sync_status (snd ?R) (entity_name Products)
          = Some (if fst (upsertErrorStatus Products (take 255 ''timeout'')
                       (logError (SyncError Products ''timeout'') stf)) = None
                  then \<lparr>last_sync = now later_state, record_count = 2,
                         status = ''error: '' @ take 255 ''timeout''\<rparr>
                  else \<lparr>last_sync = now ?start, record_count = 2, status = ''success''\<rparr>)" and
    g: "fault_at 0 (snd ?R) = None \<longrightarrow>
          stats_of (fst (getStats (snd ?R))) (entity_name Products)
            = Some (if fst (upsertErrorStatus Products (take 255 ''timeout'')
                         (logError (SyncError Products ''timeout'') stf)) = None
                    then \<lparr>lastSyncDate = Some (now later_state), totalCount = 2,
                           stat_status = ''error: '' @ take 255 ''timeout''\<rparr>
                    else \<lparr>lastSyncDate = Some (now ?start), totalCount = 2,
                           stat_status = ''success''\<rparr>)"
    by (elim exE conjE) (rule that)
  from t have stf: "stf = request ''get'' ''products'' later_state"
    by (simp add: trySync_def)
  have acc: "fst (upsertErrorStatus Products (take 255 ''timeout'')
      (logError (SyncError Products ''timeout'') stf)) = None"
    unfolding stf by code_simp
  have nf: "fault_at 0 (snd ?R) = None"
    by code_simp
  from s acc env have s': "sync_status (snd ?R) ''products''
       = Some \<lparr>last_sync = 2000, record_count = 2, status = ''error: timeout''\<rparr>"
    by simp
  from g nf acc env have g': "stats_of (fst (getStats (snd ?R))) ''products''
       = Some \<lparr>lastSyncDate = Some 2000, totalCount = 2, stat_status = ''error: timeout''\<rparr>"
    by simp
  have none: "sync_status initial_state ''products'' = None" "now initial_state = 0"
    by (simp_all add: initial_state_def)
  have "fst (upsertErrorStatus Products ''timeout'' initial_state) = None"
    by code_simp
  then have "sync_status initial_state (entity_name Products) = None
     \<and> upsertErrorStatus Products ''timeout'' initial_state
        = (None, snd (upsertErrorStatus Products ''timeout'' initial_state))"
    using none by (simp add: prod_eq_iff)
  from T [THEN conjunct2, THEN conjunct1, rule_format, OF this] none
  have ins: "sync_status (snd (upsertErrorStatus Products ''timeout'' initial_state)) ''products''
       = Some \<lparr>last_sync = 0, record_count = 0, status = ''error: timeout''\<rparr>"
    by simp
  have some: "sync_status later_state ''products''
       = Some \<lparr>last_sync = 1000, record_count = 2, status = ''success''\<rparr>"
    by code_simp
  have "fst (upsertErrorStatus Products ''timeout'' later_state) = None"
    by code_simp
  then have "sync_status later_state (entity_name Products)
        = Some \<lparr>last_sync = 1000, record_count = 2, status = ''success''\<rparr>
     \<and> upsertErrorStatus Products ''timeout'' later_state
        = (None, snd (upsertErrorStatus Products ''timeout'' later_state))"
    using some by (simp add: prod_eq_iff)
  from T [THEN conjunct1, rule_format, OF this] env(2)
  have upd: "sync_status (snd (upsertErrorStatus Products ''timeout'' later_state)) ''products''
       = Some \<lparr>last_sync = 2000, record_count = 2, status = ''error: timeout''\<rparr>"
    by simp
  from first failed s' g' some upd none(1) ins show ?thesis
    unfolding eq by (intro conjI)
qed

text \<open>
  The claim as stated fails: after the same first sync the database is unreachable for
  two statements, the \<^verbatim>\<open>DELETE\<close> of the next product sync and the error upsert. The
  sync fails, and the reporter shows the count 2 beside the status \<^verbatim>\<open>success\<close> and
  the date of the first sync, not beside an error status.
\<close>

theorem failed_sync_error_status_counterexample:
  "fst (syncProducts example_api (initial_state\<lparr>now := 1000\<rparr>)) = Success 2
   \<and> sync_status db_down_state = sync_status after_first_sync
   \<and> fst (syncProducts example_api db_down_state) = Failure ''Connection is closed.''
   \<and> stats_of (fst (getStats (snd (syncProducts example_api db_down_state)))) ''products''
       = Some \<lparr>lastSyncDate = Some 1000, totalCount = 2, stat_status = ''success''\<rparr>"
proof -
  have "sync_status db_down_state = sync_status after_first_sync"
    by (simp add: db_down_state_def)
  moreover have "fst (syncProducts example_api (initial_state\<lparr>now := 1000\<rparr>)) = Success 2"
    by code_simp
  moreover have "fst (syncProducts example_api db_down_state) = Failure ''Connection is closed.''"
    by code_simp
  moreover have "stats_of (fst (getStats (snd (syncProducts example_api db_down_state))))
      ''products''
       = Some \<lparr>lastSyncDate = Some 1000, totalCount = 2, stat_status = ''success''\<rparr>"
    by code_simp
  ultimately show ?thesis by blast
qed

end
